theory Spec2Isabelle
  imports Main "HOL-Library.Word"
begin

section \<open>The note orchestrator of \<^verbatim>\<open>src/App.jsx\<close>\<close>

text \<open>
  The component \<^verbatim>\<open>App\<close> keeps four pieces of React state (\<^verbatim>\<open>notes\<close>, \<^verbatim>\<open>formState\<close>,
  \<^verbatim>\<open>file\<close>, \<^verbatim>\<open>loading\<close>) and four asynchronous functions (\<^verbatim>\<open>withImageUrl\<close>,
  \<^verbatim>\<open>fetchNotes\<close>, \<^verbatim>\<open>createNote\<close>, \<^verbatim>\<open>deleteNote\<close>) that call the Amplify Data client and the
  Amplify Storage helpers. The embedding passes the state explicitly. What the
  collaborators answer is a parameter (\<open>env\<close>); what the component does to them is
  recorded, in order, in a trace that is part of the state.
\<close>

subsection \<open>JavaScript strings\<close>

text \<open>
  A JavaScript string is a sequence of UTF-16 code units. A string is truthy when it is
  not empty; \<^verbatim>\<open>undefined\<close> and \<^verbatim>\<open>null\<close> are \<open>None\<close> and are falsy.
\<close>

type_synonym jsstring = "16 word list"

definition ascii :: "string \<Rightarrow> jsstring" where
  "ascii cs = map (\<lambda>c. of_nat (of_char c)) cs"

definition truthy :: "jsstring option \<Rightarrow> bool" where
  "truthy v = (case v of None \<Rightarrow> False | Some str \<Rightarrow> str \<noteq> [])"

text \<open>
  \<^verbatim>\<open>String.prototype.trim\<close> strips the code units that ECMAScript calls WhiteSpace
  (TAB, VT, FF, SP, NBSP, ZWNBSP and the Unicode space separators) or LineTerminator
  (LF, CR, LS, PS) from both ends.
\<close>

definition isWhiteSpace :: "16 word \<Rightarrow> bool" where
  "isWhiteSpace c \<longleftrightarrow>
     c \<in> set [0x0009, 0x000A, 0x000B, 0x000C, 0x000D, 0x0020, 0x00A0, 0x1680,
              0x2028, 0x2029, 0x202F, 0x205F, 0x3000, 0xFEFF]
     \<or> (0x2000 \<le> c \<and> c \<le> 0x200A)"

definition trim :: "jsstring \<Rightarrow> jsstring" where
  "trim str = rev (dropWhile isWhiteSpace (rev (dropWhile isWhiteSpace str)))"

text \<open>
  The template literal of \<^verbatim>\<open>createNote\<close> renders \<^verbatim>\<open>Date.now()\<close>, an integral number of
  milliseconds, in decimal.
\<close>

fun digits :: "nat \<Rightarrow> jsstring" where
  "digits n =
     (if n < 10 then [of_nat (48 + n)] else digits (n div 10) @ [of_nat (48 + n mod 10)])"

definition Number_toString :: "int \<Rightarrow> jsstring" where
  "Number_toString i = (if i < 0 then ascii ''-'' @ digits (nat (- i)) else digits (nat i))"

subsection \<open>Data\<close>

text \<open>
  A note as the Data client returns it; \<open>note_imageUrl\<close> is the property that
  \<^verbatim>\<open>withImageUrl\<close> adds. A property is a string, or \<open>None\<close> when it is absent or
  \<^verbatim>\<open>null\<close>. The record is extensible: whatever further properties a note carries are
  its \<open>more\<close> part, which the spread \<^verbatim>\<open>{ ...note, imageUrl }\<close> copies.

  The collection, the answers of the Data client and the arguments of \<^verbatim>\<open>withImageUrl\<close>
  and \<^verbatim>\<open>deleteNote\<close> are notes: objects. A nullish value in the place of a note is
  outside this type, so the optional chaining in \<^verbatim>\<open>note?.image\<close> and \<^verbatim>\<open>note?.id\<close> reads
  the property. The name and the description of the form buffer are strings, as the
  two \<^verbatim>\<open>onChange\<close> handlers store them, so \<^verbatim>\<open>name?.trim()\<close> trims the name. The pending
  file is a \<^verbatim>\<open>File\<close> or \<^verbatim>\<open>null\<close>.
\<close>

record Note =
  note_id :: "jsstring option"
  note_name :: "jsstring option"
  note_description :: "jsstring option"
  note_image :: "jsstring option"
  note_imageUrl :: "jsstring option"

record formState_t =
  name :: jsstring
  description :: jsstring

record jsfile =
  file_name :: jsstring
  file_type :: jsstring
  file_data :: "8 word list"

datatype error = ServiceError | StorageError | TypeError

text \<open>The requests the component sends, each with the arguments it passes.\<close>

datatype call =
    ListCall
  | CreateCall jsstring jsstring "jsstring option"
  | DeleteCall jsstring
  | UploadCall jsstring jsfile jsstring
  | GetUrlCall jsstring
  | RemoveCall jsstring

datatype event =
    Issued call
  | Resolved call
  | Rejected call
  | SetLoading bool
  | ConsoleError string error
  | ConsoleWarn string error
  | PreventDefault

record 'a app =
  notes' :: "'a Note_scheme list"
  formState :: formState_t
  file' :: "jsfile option"
  loading :: bool
  trace :: "event list"

text \<open>
  The trace: the requests issued and how they settled, the writes of the busy flag, the
  console output and the call of \<^verbatim>\<open>preventDefault\<close>, in the order in which they happen.

  \<open>env\<close> holds the answers of the collaborators during one invocation. Every
  collaborator but \<^verbatim>\<open>getUrl\<close> is asked at most once per invocation; \<^verbatim>\<open>getUrl\<close> is asked
  once per note, so its answer may also depend on the position of the note
  (\<^verbatim>\<open>createNote\<close> asks at position 0). An answer \<open>Inl err\<close> is a rejected promise (or a
  result that cannot be destructured), \<open>Inr v\<close> a fulfilled one. \<open>models_Notes_list\<close>
  answers with the \<^verbatim>\<open>data\<close> property, which may be nullish; \<open>getUrl\<close> with \<^verbatim>\<open>url.href\<close>.
  \<open>Date_now\<close> is what \<^verbatim>\<open>Date.now()\<close> returns.
\<close>

record 'a env =
  models_Notes_list :: "error + 'a Note_scheme list option"
  models_Notes_create :: "jsstring \<Rightarrow> jsstring \<Rightarrow> jsstring option \<Rightarrow> error + 'a Note_scheme"
  models_Notes_delete :: "jsstring \<Rightarrow> error + unit"
  uploadData :: "jsstring \<Rightarrow> jsfile \<Rightarrow> jsstring \<Rightarrow> error + unit"
  getUrl :: "nat \<Rightarrow> jsstring \<Rightarrow> error + jsstring"
  remove :: "jsstring \<Rightarrow> error + unit"
  Date_now :: int

subsection \<open>State updates and awaited calls\<close>

definition emit :: "event \<Rightarrow> 'a app \<Rightarrow> 'a app" where
  "emit e s = s\<lparr>trace := trace s @ [e]\<rparr>"

definition setLoading :: "bool \<Rightarrow> 'a app \<Rightarrow> 'a app" where
  "setLoading b s = emit (SetLoading b) (s\<lparr>loading := b\<rparr>)"

definition setNotes :: "('a Note_scheme list \<Rightarrow> 'a Note_scheme list) \<Rightarrow> 'a app \<Rightarrow> 'a app" where
  "setNotes upd s = s\<lparr>notes' := upd (notes' s)\<rparr>"

definition setFormState :: "formState_t \<Rightarrow> 'a app \<Rightarrow> 'a app" where
  "setFormState v s = s\<lparr>formState := v\<rparr>"

definition setFile :: "jsfile option \<Rightarrow> 'a app \<Rightarrow> 'a app" where
  "setFile v s = s\<lparr>file' := v\<rparr>"

text \<open>
  \<^verbatim>\<open>await\<close> of a collaborator call: the request is issued, the function is suspended,
  and it goes on when the promise has settled with the answer \<open>r\<close>.
\<close>

definition await :: "call \<Rightarrow> error + 'r \<Rightarrow> 'a app \<Rightarrow> (error + 'r) \<times> 'a app" where
  "await c r s =
     (case r of
        Inl err \<Rightarrow> (Inl err, emit (Rejected c) (emit (Issued c) s))
      | Inr v \<Rightarrow> (Inr v, emit (Resolved c) (emit (Issued c) s)))"

subsection \<open>\<^verbatim>\<open>withImageUrl\<close>\<close>

text \<open>
  \<^verbatim>\<open>
  async function withImageUrl(note) {
    if (!note?.image) return note;
    try {
      const { url } = await getUrl({ key: note.image });
      return { ...note, imageUrl: url.href };
    } catch (err) {
      console.error('getUrl error:', err);
      return note;
    }
  }
  \<close>
  An async function runs synchronously up to its first \<^verbatim>\<open>await\<close>: \<open>withImageUrl_start\<close>
  is that part (the guard and the request), \<open>withImageUrl_resume\<close> the rest (from the
  settled promise on). The argument \<open>g\<close> is the object store's answer to a \<^verbatim>\<open>getUrl\<close>
  request for a key. The function has no exit that throws: its result is always
  \<open>Inr\<close> of a note.
\<close>

datatype 'n suspended = Returned 'n | Awaiting 'n jsstring "error + jsstring"

definition withImageUrl_start ::
  "(jsstring \<Rightarrow> error + jsstring) \<Rightarrow> 'a Note_scheme \<Rightarrow> 'a app \<Rightarrow> 'a Note_scheme suspended \<times> 'a app" where
  "withImageUrl_start g note s =
     (if \<not> truthy (note_image note) then (Returned note, s)
      else case note_image note of
             None \<Rightarrow> (Returned note, s)
           | Some key \<Rightarrow> (Awaiting note key (g key), emit (Issued (GetUrlCall key)) s))"

definition withImageUrl_resume ::
  "'a Note_scheme suspended \<Rightarrow> 'a app \<Rightarrow> (error + 'a Note_scheme) \<times> 'a app" where
  "withImageUrl_resume p s =
     (case p of
        Returned note \<Rightarrow> (Inr note, s)
      | Awaiting note key r \<Rightarrow>
          (case r of
             Inr href \<Rightarrow>
               (Inr (note\<lparr>note_imageUrl := Some href\<rparr>), emit (Resolved (GetUrlCall key)) s)
           | Inl err \<Rightarrow>
               (Inr note,
                emit (ConsoleError ''getUrl error:'' err) (emit (Rejected (GetUrlCall key)) s))))"

definition withImageUrl ::
  "(jsstring \<Rightarrow> error + jsstring) \<Rightarrow> 'a Note_scheme \<Rightarrow> 'a app \<Rightarrow> (error + 'a Note_scheme) \<times> 'a app" where
  "withImageUrl g note s =
     (let (p, s1) = withImageUrl_start g note s in withImageUrl_resume p s1)"

subsection \<open>\<^verbatim>\<open>fetchNotes\<close>\<close>

text \<open>
  \<^verbatim>\<open>Promise.all((data ?? []).map(withImageUrl))\<close>: \<^verbatim>\<open>map\<close> starts \<^verbatim>\<open>withImageUrl\<close> on every
  note in turn, so all requests are issued, in the order of the list, before any of
  them settles (\<open>start_all\<close>). The promises then settle; the result array keeps the
  order of the list whatever the order of settlement, and the trace records them in the
  order of the list (\<open>resume_all\<close>). \<^verbatim>\<open>Promise.all\<close> rejects with the first rejection.
\<close>

fun start_all ::
  "(nat \<Rightarrow> jsstring \<Rightarrow> error + jsstring) \<Rightarrow> nat \<Rightarrow> 'a Note_scheme list \<Rightarrow> 'a app
     \<Rightarrow> 'a Note_scheme suspended list \<times> 'a app" where
  "start_all g i [] s = ([], s)"
| "start_all g i (n # ns) s =
     (let (p, s1) = withImageUrl_start (g i) n s;
          (ps, s2) = start_all g (Suc i) ns s1
      in (p # ps, s2))"

fun resume_all ::
  "'a Note_scheme suspended list \<Rightarrow> 'a app \<Rightarrow> (error + 'a Note_scheme list) \<times> 'a app" where
  "resume_all [] s = (Inr [], s)"
| "resume_all (p # ps) s =
     (case withImageUrl_resume p s of
        (Inl err, s1) \<Rightarrow> (Inl err, s1)
      | (Inr n, s1) \<Rightarrow>
          (case resume_all ps s1 of
             (Inl err, s2) \<Rightarrow> (Inl err, s2)
           | (Inr ns, s2) \<Rightarrow> (Inr (n # ns), s2)))"

definition Promise_all_withImageUrl ::
  "(nat \<Rightarrow> jsstring \<Rightarrow> error + jsstring) \<Rightarrow> 'a Note_scheme list \<Rightarrow> 'a app
     \<Rightarrow> (error + 'a Note_scheme list) \<times> 'a app" where
  "Promise_all_withImageUrl g ns s = (let (ps, s1) = start_all g 0 ns s in resume_all ps s1)"

text \<open>
  \<^verbatim>\<open>
  async function fetchNotes() {
    try {
      setLoading(true);
      const { data } = await client.models.Notes.list();
      const withUrls = await Promise.all((data ?? []).map(withImageUrl));
      setNotes(withUrls);
    } catch (err) {
      console.error('fetchNotes error:', err);
    } finally {
      setLoading(false);
    }
  }
  \<close>
  \<open>fetchNotes_try\<close> is the \<^verbatim>\<open>try\<close> block, \<open>Inl err\<close> when it throws \<open>err\<close>. The result of
  \<open>fetchNotes\<close> pairs the settlement of the promise the function returns with the state.
\<close>

definition fetchNotes_try :: "'a env \<Rightarrow> 'a app \<Rightarrow> (error + unit) \<times> 'a app" where
  "fetchNotes_try env s0 =
     (let s1 = setLoading True s0;
          (r, s2) = await ListCall (models_Notes_list env) s1
      in case r of
           Inl err \<Rightarrow> (Inl err, s2)
         | Inr data \<Rightarrow>
             (let (all, s3) =
                    Promise_all_withImageUrl (getUrl env) (case data of None \<Rightarrow> [] | Some d \<Rightarrow> d) s2
              in case all of
                   Inl err \<Rightarrow> (Inl err, s3)
                 | Inr withUrls \<Rightarrow> (Inr (), setNotes (\<lambda>_. withUrls) s3)))"

definition fetchNotes :: "'a env \<Rightarrow> 'a app \<Rightarrow> (error + unit) \<times> 'a app" where
  "fetchNotes env s0 =
     (let (r, s1) = fetchNotes_try env s0;
          s2 = (case r of Inl err \<Rightarrow> emit (ConsoleError ''fetchNotes error:'' err) s1 | Inr _ \<Rightarrow> s1)
      in (Inr (), setLoading False s2))"

subsection \<open>\<^verbatim>\<open>createNote\<close>\<close>

text \<open>
  \<^verbatim>\<open>
  async function createNote(e) {
    e.preventDefault();
    const { name, description } = formState;
    if (!name?.trim()) return;
    try {
      setLoading(true);
      let imageKey = undefined;
      if (file) {
        const key = `images/${Date.now()}-${file.name}`;
        await uploadData({ key, data: file, options: { contentType: file.type } }).result;
        imageKey = key;
      }
      const { data: created } = await client.models.Notes.create({
        name, description, image: imageKey,
      });
      setFormState({ name: '', description: '' });
      setFile(null);
      const createdWithUrl = await withImageUrl(created);
      setNotes((prev) => [createdWithUrl, ...prev]);
    } catch (err) {
      console.error('createNote error:', err);
    } finally {
      setLoading(false);
    }
  }
  \<close>
  \<open>createNote_key\<close> is the template literal, \<open>createNote_upload\<close> the \<^verbatim>\<open>if (file)\<close>
  statement; its value is \<^verbatim>\<open>imageKey\<close>.
\<close>

definition createNote_key :: "'a env \<Rightarrow> jsfile \<Rightarrow> jsstring" where
  "createNote_key env f =
     ascii ''images/'' @ Number_toString (Date_now env) @ ascii ''-'' @ file_name f"

definition createNote_upload :: "'a env \<Rightarrow> jsfile option \<Rightarrow> 'a app \<Rightarrow> (error + jsstring option) \<times> 'a app" where
  "createNote_upload env fl s =
     (case fl of
        None \<Rightarrow> (Inr None, s)
      | Some f \<Rightarrow>
          (let key = createNote_key env f;
               (r, s1) = await (UploadCall key f (file_type f)) (uploadData env key f (file_type f)) s
           in case r of Inl err \<Rightarrow> (Inl err, s1) | Inr _ \<Rightarrow> (Inr (Some key), s1)))"

definition createNote_try ::
  "'a env \<Rightarrow> jsstring \<Rightarrow> jsstring \<Rightarrow> jsfile option \<Rightarrow> 'a app \<Rightarrow> (error + unit) \<times> 'a app" where
  "createNote_try env nm descr fl s0 =
     (let s1 = setLoading True s0;
          (up, s2) = createNote_upload env fl s1
      in case up of
           Inl err \<Rightarrow> (Inl err, s2)
         | Inr imageKey \<Rightarrow>
             (let (r, s3) = await (CreateCall nm descr imageKey)
                                  (models_Notes_create env nm descr imageKey) s2
              in case r of
                   Inl err \<Rightarrow> (Inl err, s3)
                 | Inr created \<Rightarrow>
                     (let s4 = setFormState \<lparr>name = [], description = []\<rparr> s3;
                          s5 = setFile None s4;
                          (hy, s6) = withImageUrl (getUrl env 0) created s5
                      in case hy of
                           Inl err \<Rightarrow> (Inl err, s6)
                         | Inr createdWithUrl \<Rightarrow>
                             (Inr (), setNotes (\<lambda>prev. createdWithUrl # prev) s6))))"

definition createNote :: "'a env \<Rightarrow> 'a app \<Rightarrow> (error + unit) \<times> 'a app" where
  "createNote env s0 =
     (let s1 = emit PreventDefault s0;
          nm = name (formState s0);
          descr = description (formState s0)
      in if trim nm = [] then (Inr (), s1)
         else
           (let (r, s2) = createNote_try env nm descr (file' s0) s1;
                s3 = (case r of Inl err \<Rightarrow> emit (ConsoleError ''createNote error:'' err) s2
                      | Inr _ \<Rightarrow> s2)
            in (Inr (), setLoading False s3)))"

subsection \<open>\<^verbatim>\<open>deleteNote\<close>\<close>

text \<open>
  \<^verbatim>\<open>
  async function deleteNote(note) {
    if (!note?.id) return;
    try {
      setLoading(true);
      await client.models.Notes.delete({ id: note.id });
      if (note.image) {
        try {
          await remove({ key: note.image });
        } catch (rmErr) {
          console.warn('remove image warning:', rmErr);
        }
      }
      setNotes((prev) => prev.filter((n) => n.id !== note.id));
    } catch (err) {
      console.error('deleteNote error:', err);
    } finally {
      setLoading(false);
    }
  }
  \<close>
  \<open>deleteNote_remove\<close> is the \<^verbatim>\<open>if (note.image)\<close> statement with its inner \<^verbatim>\<open>try\<close>.
\<close>

definition deleteNote_remove :: "'a env \<Rightarrow> 'a Note_scheme \<Rightarrow> 'a app \<Rightarrow> 'a app" where
  "deleteNote_remove env note s =
     (if truthy (note_image note) then
        (case note_image note of
           None \<Rightarrow> s
         | Some key \<Rightarrow>
             (let (r, s1) = await (RemoveCall key) (remove env key) s
              in case r of
                   Inl rmErr \<Rightarrow> emit (ConsoleWarn ''remove image warning:'' rmErr) s1
                 | Inr _ \<Rightarrow> s1))
      else s)"

definition deleteNote_try :: "'a env \<Rightarrow> 'a Note_scheme \<Rightarrow> jsstring \<Rightarrow> 'a app \<Rightarrow> (error + unit) \<times> 'a app" where
  "deleteNote_try env note ident s0 =
     (let s1 = setLoading True s0;
          (r, s2) = await (DeleteCall ident) (models_Notes_delete env ident) s1
      in case r of
           Inl err \<Rightarrow> (Inl err, s2)
         | Inr _ \<Rightarrow>
             (let s3 = deleteNote_remove env note s2
              in (Inr (), setNotes (filter (\<lambda>n. note_id n \<noteq> note_id note)) s3)))"

definition deleteNote :: "'a env \<Rightarrow> 'a Note_scheme \<Rightarrow> 'a app \<Rightarrow> (error + unit) \<times> 'a app" where
  "deleteNote env note s0 =
     (if \<not> truthy (note_id note) then (Inr (), s0)
      else case note_id note of
             None \<Rightarrow> (Inr (), s0)
           | Some ident \<Rightarrow>
               (let (r, s1) = deleteNote_try env note ident s0;
                    s2 = (case r of Inl err \<Rightarrow> emit (ConsoleError ''deleteNote error:'' err) s1
                          | Inr _ \<Rightarrow> s1)
                in (Inr (), setLoading False s2)))"

subsection \<open>Reading a trace\<close>

text \<open>The requests issued in a stretch of trace, in order.\<close>

fun issued :: "event list \<Rightarrow> call list" where
  "issued [] = []"
| "issued (Issued c # es) = c # issued es"
| "issued (_ # es) = issued es"

fun isUpload :: "call \<Rightarrow> bool" where
  "isUpload (UploadCall _ _ _) = True"
| "isUpload _ = False"

fun isCreate :: "call \<Rightarrow> bool" where
  "isCreate (CreateCall _ _ _) = True"
| "isCreate _ = False"

text \<open>
  \<open>busy_span b es\<close>: replaying \<open>es\<close> from a busy flag \<open>b\<close>, every request is issued and
  settles while the flag is true.
\<close>

fun busy_span :: "bool \<Rightarrow> event list \<Rightarrow> bool" where
  "busy_span b [] = True"
| "busy_span b (SetLoading b' # es) = busy_span b' es"
| "busy_span b (Issued c # es) = (b \<and> busy_span b es)"
| "busy_span b (Resolved c # es) = (b \<and> busy_span b es)"
| "busy_span b (Rejected c # es) = (b \<and> busy_span b es)"
| "busy_span b (_ # es) = busy_span b es"

text \<open>The events that an invocation adds to the trace.\<close>

definition new_events :: "'a app \<Rightarrow> 'a app \<Rightarrow> event list" where
  "new_events s s' = drop (length (trace s)) (trace s')"

text \<open>The events of \<^verbatim>\<open>withImageUrl\<close>: a \<^verbatim>\<open>getUrl\<close> request, its settlement, the logged error.\<close>

fun isHydration :: "event \<Rightarrow> bool" where
  "isHydration (Issued (GetUrlCall _)) = True"
| "isHydration (Resolved (GetUrlCall _)) = True"
| "isHydration (Rejected (GetUrlCall _)) = True"
| "isHydration (ConsoleError _ _) = True"
| "isHydration _ = False"

fun isSetLoading :: "event \<Rightarrow> bool" where
  "isSetLoading (SetLoading _) = True"
| "isSetLoading _ = False"

fun isRemove :: "call \<Rightarrow> bool" where
  "isRemove (RemoveCall _) = True"
| "isRemove _ = False"

subsection \<open>Example inputs\<close>

text \<open>
  \<open>initial\<close> is the state the component mounts with (the arguments of its four
  \<^verbatim>\<open>useState\<close> calls). The others are sample notes, a sample picture, a backend that
  answers every request, one that fails every request and one that only fails to
  remove objects; form buffers with the name \<^verbatim>\<open>Trip\<close>, with that name padded with
  blanks, and with a name of a space, a tab and a no-break space.
\<close>

definition initial :: "unit app" where
  "initial = \<lparr>notes' = [], formState = \<lparr>name = [], description = []\<rparr>, file' = None,
               loading = False, trace = []\<rparr>"

definition note_trip :: Note where
  "note_trip = \<lparr>note_id = Some (ascii ''n1''), note_name = Some (ascii ''Trip''),
                 note_description = Some (ascii ''Fun''),
                 note_image = Some (ascii ''images/1-a.png''), note_imageUrl = None\<rparr>"

definition note_plain :: Note where
  "note_plain = \<lparr>note_id = Some (ascii ''n0''), note_name = Some (ascii ''Memo''),
                  note_description = None, note_image = None, note_imageUrl = None\<rparr>"

definition photo :: jsfile where
  "photo = \<lparr>file_name = ascii ''a.png'', file_type = ascii ''image/png'', file_data = [137, 80]\<rparr>"

definition env_ok :: "unit env" where
  "env_ok = \<lparr>models_Notes_list = Inr (Some [note_trip, note_plain]),
              models_Notes_create = (\<lambda>n d i. Inr \<lparr>note_id = Some (ascii ''n2''), note_name = Some n,
                 note_description = Some d, note_image = i, note_imageUrl = None\<rparr>),
              models_Notes_delete = (\<lambda>_. Inr ()),
              uploadData = (\<lambda>_ _ _. Inr ()),
              getUrl = (\<lambda>_ k. Inr (ascii ''https://store/'' @ k)),
              remove = (\<lambda>_. Inr ()),
              Date_now = 1700000000000\<rparr>"

definition env_down :: "unit env" where
  "env_down = \<lparr>models_Notes_list = Inl ServiceError,
              models_Notes_create = (\<lambda>_ _ _. Inl ServiceError),
              models_Notes_delete = (\<lambda>_. Inl ServiceError),
              uploadData = (\<lambda>_ _ _. Inl StorageError),
              getUrl = (\<lambda>_ _. Inl StorageError),
              remove = (\<lambda>_. Inl StorageError),
              Date_now = 1700000000000\<rparr>"

definition form_trip :: "unit app" where
  "form_trip = initial\<lparr>formState := \<lparr>name = ascii ''Trip'', description = ascii ''Fun''\<rparr>\<rparr>"

definition form_padded :: "unit app" where
  "form_padded = initial\<lparr>formState := \<lparr>name = ascii ''  Trip '', description = ascii ''Fun''\<rparr>\<rparr>"

definition form_blank :: "unit app" where
  "form_blank = initial\<lparr>formState := \<lparr>name = [0x0020, 0x0009, 0x00A0], description = ascii ''Fun''\<rparr>\<rparr>"

definition listed :: "unit app" where
  "listed = initial\<lparr>notes' := [note_trip, note_plain]\<rparr>"

definition created_trip :: Note where
  "created_trip = \<lparr>note_id = Some (ascii ''n2''), note_name = Some (ascii ''Trip''),
                    note_description = Some (ascii ''Fun''), note_image = None,
                    note_imageUrl = None\<rparr>"

definition env_orphan :: "unit env" where
  "env_orphan = env_ok\<lparr>remove := \<lambda>_. Inl StorageError\<rparr>"

section \<open>Properties\<close>

subsection \<open>Auxiliary facts\<close>

lemmas state_defs = emit_def setLoading_def setNotes_def setFormState_def setFile_def await_def Let_def

lemma trim_eq_Nil: "trim str = [] \<longleftrightarrow> (\<forall>c\<in>set str. isWhiteSpace c)"
proof
  assume "trim str = []"
  then have "dropWhile isWhiteSpace (rev (dropWhile isWhiteSpace str)) = []"
    by (simp add: trim_def)
  then have all: "\<forall>c\<in>set (dropWhile isWhiteSpace str). isWhiteSpace c"
    by simp
  have "dropWhile isWhiteSpace str = []"
  proof (rule ccontr)
    assume ne: "dropWhile isWhiteSpace str \<noteq> []"
    then have "\<not> isWhiteSpace (hd (dropWhile isWhiteSpace str))"
      by (rule hd_dropWhile)
    moreover have "hd (dropWhile isWhiteSpace str) \<in> set (dropWhile isWhiteSpace str)"
      using ne by simp
    ultimately show False using all by blast
  qed
  then show "\<forall>c\<in>set str. isWhiteSpace c"
    by simp
next
  assume "\<forall>c\<in>set str. isWhiteSpace c"
  then have "dropWhile isWhiteSpace str = []"
    by simp
  then show "trim str = []"
    unfolding trim_def by (auto dest: set_dropWhileD)
qed

lemma withImageUrl_falsy: "\<not> truthy (note_image n) \<Longrightarrow> withImageUrl g n s = (Inr n, s)"
  by (simp add: withImageUrl_def withImageUrl_start_def withImageUrl_resume_def)

lemma withImageUrl_resolved:
  "note_image n = Some K \<Longrightarrow> K \<noteq> [] \<Longrightarrow> g K = Inr U \<Longrightarrow>
   withImageUrl g n s =
     (Inr (n\<lparr>note_imageUrl := Some U\<rparr>),
      s\<lparr>trace := trace s @ [Issued (GetUrlCall K), Resolved (GetUrlCall K)]\<rparr>)"
  by (simp add: withImageUrl_def withImageUrl_start_def withImageUrl_resume_def truthy_def emit_def)

lemma withImageUrl_rejected:
  "note_image n = Some K \<Longrightarrow> K \<noteq> [] \<Longrightarrow> g K = Inl err \<Longrightarrow>
   withImageUrl g n s =
     (Inr n,
      s\<lparr>trace := trace s @ [Issued (GetUrlCall K), Rejected (GetUrlCall K),
                             ConsoleError ''getUrl error:'' err]\<rparr>)"
  by (simp add: withImageUrl_def withImageUrl_start_def withImageUrl_resume_def truthy_def emit_def)

lemma withImageUrl_shape:
  "\<exists>n' es. (\<forall>s. withImageUrl g n s = (Inr n', s\<lparr>trace := trace s @ es\<rparr>))
      \<and> list_all isHydration es
      \<and> (n' = n \<or> (\<exists>u. truthy (note_image n) \<and> n' = n\<lparr>note_imageUrl := Some u\<rparr>))"
proof (cases "truthy (note_image n)")
  case False
  then have "\<forall>s. withImageUrl g n s = (Inr n, s\<lparr>trace := trace s @ []\<rparr>)"
    by (simp add: withImageUrl_falsy)
  then show ?thesis by (intro exI [of _ n] exI [of _ "[]"]) simp
next
  case True
  then obtain K where K: "note_image n = Some K" "K \<noteq> []"
    by (auto simp: truthy_def split: option.splits)
  show ?thesis
  proof (cases "g K")
    case (Inl err)
    show ?thesis
      by (intro exI [of _ n] exI [of _ "[Issued (GetUrlCall K), Rejected (GetUrlCall K),
                             ConsoleError ''getUrl error:'' err]"])
         (use K Inl in \<open>simp add: withImageUrl_rejected\<close>)
  next
    case (Inr U)
    show ?thesis
      by (intro exI [of _ "n\<lparr>note_imageUrl := Some U\<rparr>"]
                exI [of _ "[Issued (GetUrlCall K), Resolved (GetUrlCall K)]"])
         (use True K Inr in \<open>auto simp add: withImageUrl_resolved\<close>)
  qed
qed

lemma issued_append: "issued (es @ es') = issued es @ issued es'"
  by (induction es rule: issued.induct) simp_all

lemma isHydration_issued: "list_all isHydration es \<Longrightarrow> list_all (\<lambda>c. \<exists>k. c = GetUrlCall k) (issued es)"
  by (induction es rule: issued.induct) (auto elim: isHydration.elims)

lemma hydration_no_upload: "list_all isHydration es \<Longrightarrow> filter isUpload (issued es) = []"
  by (drule isHydration_issued) (auto simp: filter_empty_conv list_all_iff)

lemma hydration_no_create: "list_all isHydration es \<Longrightarrow> filter isCreate (issued es) = []"
  by (drule isHydration_issued) (auto simp: filter_empty_conv list_all_iff)

lemma busy_span_hydration:
  "list_all isHydration es \<Longrightarrow> busy_span True (es @ rest) = busy_span True rest"
  by (induction es) (auto elim: isHydration.elims)

lemma start_all_shape:
  "\<exists>ps es. (\<forall>s. start_all g i ns s = (ps, s\<lparr>trace := trace s @ es\<rparr>)) \<and> list_all isHydration es"
proof (induction ns arbitrary: i)
  case Nil
  show ?case by (intro exI [of _ "[]"]) simp
next
  case (Cons n ns)
  obtain ps es where tl: "\<And>s. start_all g (Suc i) ns s = (ps, s\<lparr>trace := trace s @ es\<rparr>)"
    and es: "list_all isHydration es"
    using Cons.IH [of "Suc i"] by blast
  show ?case
  proof (cases "truthy (note_image n)")
    case False
    then have "\<forall>s. start_all g i (n # ns) s = (Returned n # ps, s\<lparr>trace := trace s @ es\<rparr>)"
      by (simp add: withImageUrl_start_def tl)
    with es show ?thesis by blast
  next
    case True
    then obtain K where K: "note_image n = Some K"
      by (auto simp: truthy_def split: option.splits)
    have "\<forall>s. start_all g i (n # ns) s =
            (Awaiting n K (g i K) # ps, s\<lparr>trace := trace s @ (Issued (GetUrlCall K) # es)\<rparr>)"
      using True K by (simp add: withImageUrl_start_def tl emit_def)
    moreover have "list_all isHydration (Issued (GetUrlCall K) # es)"
      using es by simp
    ultimately show ?thesis by blast
  qed
qed

lemma withImageUrl_resume_shape:
  "\<exists>n' es. (\<forall>s. withImageUrl_resume p s = (Inr n', s\<lparr>trace := trace s @ es\<rparr>))
     \<and> list_all isHydration es"
proof (cases p)
  case (Returned n)
  then have "\<forall>s. withImageUrl_resume p s = (Inr n, s\<lparr>trace := trace s @ []\<rparr>)"
    by (simp add: withImageUrl_resume_def)
  then show ?thesis by (intro exI [of _ n] exI [of _ "[]"]) simp
next
  case (Awaiting n K r)
  show ?thesis
  proof (cases r)
    case (Inl err)
    with Awaiting have "\<forall>s. withImageUrl_resume p s =
        (Inr n, s\<lparr>trace := trace s @ [Rejected (GetUrlCall K), ConsoleError ''getUrl error:'' err]\<rparr>)"
      by (simp add: withImageUrl_resume_def emit_def)
    moreover have "list_all isHydration [Rejected (GetUrlCall K), ConsoleError ''getUrl error:'' err]"
      by simp
    ultimately show ?thesis by blast
  next
    case (Inr U)
    with Awaiting have "\<forall>s. withImageUrl_resume p s =
        (Inr (n\<lparr>note_imageUrl := Some U\<rparr>), s\<lparr>trace := trace s @ [Resolved (GetUrlCall K)]\<rparr>)"
      by (simp add: withImageUrl_resume_def emit_def)
    moreover have "list_all isHydration [Resolved (GetUrlCall K)]"
      by simp
    ultimately show ?thesis by blast
  qed
qed

lemma resume_all_shape:
  "\<exists>ns' es. (\<forall>s. resume_all ps s = (Inr ns', s\<lparr>trace := trace s @ es\<rparr>))
     \<and> list_all isHydration es"
proof (induction ps)
  case Nil
  show ?case by (intro exI [of _ "[]"]) simp
next
  case (Cons p ps)
  obtain n' es1 where hd: "\<And>s. withImageUrl_resume p s = (Inr n', s\<lparr>trace := trace s @ es1\<rparr>)"
    and es1: "list_all isHydration es1"
    using withImageUrl_resume_shape [of p] by blast
  obtain ns' es2 where tl: "\<And>s. resume_all ps s = (Inr ns', s\<lparr>trace := trace s @ es2\<rparr>)"
    and es2: "list_all isHydration es2"
    using Cons.IH by blast
  have "\<forall>s. resume_all (p # ps) s = (Inr (n' # ns'), s\<lparr>trace := trace s @ (es1 @ es2)\<rparr>)"
    by (simp add: hd tl)
  moreover have "list_all isHydration (es1 @ es2)"
    using es1 es2 by simp
  ultimately show ?case by blast
qed

lemma Promise_all_shape:
  "\<exists>ns' es. (\<forall>s. Promise_all_withImageUrl g ns s = (Inr ns', s\<lparr>trace := trace s @ es\<rparr>))
     \<and> list_all isHydration es"
proof -
  obtain ps es1 where st: "\<And>s. start_all g 0 ns s = (ps, s\<lparr>trace := trace s @ es1\<rparr>)"
    and es1: "list_all isHydration es1"
    using start_all_shape [of g 0 ns] by blast
  obtain ns' es2 where re: "\<And>s. resume_all ps s = (Inr ns', s\<lparr>trace := trace s @ es2\<rparr>)"
    and es2: "list_all isHydration es2"
    using resume_all_shape [of ps] by blast
  have "\<forall>s. Promise_all_withImageUrl g ns s = (Inr ns', s\<lparr>trace := trace s @ (es1 @ es2)\<rparr>)"
    by (simp add: Promise_all_withImageUrl_def st re)
  moreover have "list_all isHydration (es1 @ es2)"
    using es1 es2 by simp
  ultimately show ?thesis by blast
qed

lemma fetchNotes_rejected:
  "models_Notes_list env = Inl err \<Longrightarrow>
   fetchNotes env s =
     (Inr (), s\<lparr>loading := False,
               trace := trace s @ [SetLoading True, Issued ListCall, Rejected ListCall,
                                   ConsoleError ''fetchNotes error:'' err, SetLoading False]\<rparr>)"
  by (simp add: fetchNotes_def fetchNotes_try_def state_defs)

lemma fetchNotes_resolved:
  assumes "models_Notes_list env = Inr data"
  shows "\<exists>ns' es. list_all isHydration es \<and>
     fetchNotes env s =
       (Inr (), s\<lparr>notes' := ns', loading := False,
                 trace := trace s @ [SetLoading True, Issued ListCall, Resolved ListCall] @ es
                            @ [SetLoading False]\<rparr>)"
proof -
  obtain ns' es where
    pa: "\<And>s. Promise_all_withImageUrl (getUrl env) (case data of None \<Rightarrow> [] | Some d \<Rightarrow> d) s
           = (Inr ns', s\<lparr>trace := trace s @ es\<rparr>)"
    and es: "list_all isHydration es"
    using Promise_all_shape by blast
  have "fetchNotes env s =
       (Inr (), s\<lparr>notes' := ns', loading := False,
                 trace := trace s @ [SetLoading True, Issued ListCall, Resolved ListCall] @ es
                            @ [SetLoading False]\<rparr>)"
    using assms by (simp add: fetchNotes_def fetchNotes_try_def state_defs pa)
  with es show ?thesis by blast
qed

lemma fetchNotes_nullish_data:
  "models_Notes_list env = Inr None \<Longrightarrow> notes' (snd (fetchNotes env s)) = []"
  by (simp add: fetchNotes_def fetchNotes_try_def Promise_all_withImageUrl_def state_defs)

lemma createNote_blank:
  "trim (name (formState s)) = [] \<Longrightarrow>
   createNote env s = (Inr (), s\<lparr>trace := trace s @ [PreventDefault]\<rparr>)"
  by (simp add: createNote_def emit_def)

lemma createNote_upload_none: "createNote_upload env None s = (Inr None, s\<lparr>trace := trace s @ []\<rparr>)"
  by (simp add: createNote_upload_def)

lemma createNote_upload_resolved:
  "uploadData env (createNote_key env f) f (file_type f) = Inr u \<Longrightarrow>
   createNote_upload env (Some f) s =
     (Inr (Some (createNote_key env f)),
      s\<lparr>trace := trace s @ [Issued (UploadCall (createNote_key env f) f (file_type f)),
                             Resolved (UploadCall (createNote_key env f) f (file_type f))]\<rparr>)"
  by (simp add: createNote_upload_def state_defs)

lemma createNote_upload_rejected:
  assumes "trim (name (formState s)) \<noteq> []" and "file' s = Some f"
    and "uploadData env (createNote_key env f) f (file_type f) = Inl err"
  shows "createNote env s =
     (Inr (), s\<lparr>loading := False,
               trace := trace s @
                 [PreventDefault, SetLoading True,
                  Issued (UploadCall (createNote_key env f) f (file_type f)),
                  Rejected (UploadCall (createNote_key env f) f (file_type f)),
                  ConsoleError ''createNote error:'' err, SetLoading False]\<rparr>)"
  using assms by (simp add: createNote_def createNote_try_def createNote_upload_def state_defs)

lemma createNote_create_rejected:
  assumes "trim (name (formState s)) \<noteq> []"
    and "\<And>s1. createNote_upload env (file' s) s1 = (Inr k, s1\<lparr>trace := trace s1 @ ues\<rparr>)"
    and "models_Notes_create env (name (formState s)) (description (formState s)) k = Inl err"
  shows "createNote env s =
     (Inr (), s\<lparr>loading := False,
               trace := trace s @ [PreventDefault, SetLoading True] @ ues @
                 [Issued (CreateCall (name (formState s)) (description (formState s)) k),
                  Rejected (CreateCall (name (formState s)) (description (formState s)) k),
                  ConsoleError ''createNote error:'' err, SetLoading False]\<rparr>)"
  using assms(1,3) by (simp add: createNote_def createNote_try_def assms(2) state_defs)

lemma createNote_created:
  assumes "trim (name (formState s)) \<noteq> []"
    and "\<And>s1. createNote_upload env (file' s) s1 = (Inr k, s1\<lparr>trace := trace s1 @ ues\<rparr>)"
    and "models_Notes_create env (name (formState s)) (description (formState s)) k = Inr created"
    and "\<And>s1. withImageUrl (getUrl env 0) created s1 = (Inr n', s1\<lparr>trace := trace s1 @ hes\<rparr>)"
  shows "createNote env s =
     (Inr (), s\<lparr>notes' := n' # notes' s, formState := \<lparr>name = [], description = []\<rparr>,
               file' := None, loading := False,
               trace := trace s @ [PreventDefault, SetLoading True] @ ues @
                 [Issued (CreateCall (name (formState s)) (description (formState s)) k),
                  Resolved (CreateCall (name (formState s)) (description (formState s)) k)]
                 @ hes @ [SetLoading False]\<rparr>)"
  using assms(1,3) by (simp add: createNote_def createNote_try_def assms(2,4) state_defs)

lemma deleteNote_falsy_id: "\<not> truthy (note_id note) \<Longrightarrow> deleteNote env note s = (Inr (), s)"
  by (simp add: deleteNote_def)

lemma deleteNote_rejected:
  assumes "note_id note = Some ident" and "ident \<noteq> []"
    and "models_Notes_delete env ident = Inl err"
  shows "deleteNote env note s =
     (Inr (), s\<lparr>loading := False,
               trace := trace s @ [SetLoading True, Issued (DeleteCall ident),
                                   Rejected (DeleteCall ident),
                                   ConsoleError ''deleteNote error:'' err, SetLoading False]\<rparr>)"
  using assms by (simp add: deleteNote_def deleteNote_try_def truthy_def state_defs)

lemma deleteNote_remove_shape:
  "\<exists>res. (\<forall>s. deleteNote_remove env note s = s\<lparr>trace := trace s @ res\<rparr>)
     \<and> list_all (\<lambda>e. \<not> isSetLoading e) res
     \<and> (\<forall>K. note_image note = Some K \<and> K \<noteq> [] \<longrightarrow> take 1 res = [Issued (RemoveCall K)])"
proof (cases "truthy (note_image note)")
  case False
  then have "\<forall>s. deleteNote_remove env note s = s\<lparr>trace := trace s @ []\<rparr>"
    by (simp add: deleteNote_remove_def)
  moreover have "\<forall>K. note_image note = Some K \<and> K \<noteq> [] \<longrightarrow> take 1 [] = [Issued (RemoveCall K)]"
    using False by (auto simp: truthy_def)
  ultimately show ?thesis by (intro exI [of _ "[]"]) simp
next
  case True
  then obtain K where K: "note_image note = Some K" "K \<noteq> []"
    by (auto simp: truthy_def split: option.splits)
  show ?thesis
  proof (cases "remove env K")
    case (Inl rmErr)
    then have "\<forall>s. deleteNote_remove env note s =
        s\<lparr>trace := trace s @ [Issued (RemoveCall K), Rejected (RemoveCall K),
                               ConsoleWarn ''remove image warning:'' rmErr]\<rparr>"
      using True K by (simp add: deleteNote_remove_def state_defs)
    then show ?thesis
      using K by (intro exI [of _ "[Issued (RemoveCall K), Rejected (RemoveCall K),
                               ConsoleWarn ''remove image warning:'' rmErr]"]) simp
  next
    case (Inr u)
    then have "\<forall>s. deleteNote_remove env note s =
        s\<lparr>trace := trace s @ [Issued (RemoveCall K), Resolved (RemoveCall K)]\<rparr>"
      using True K by (simp add: deleteNote_remove_def state_defs)
    then show ?thesis
      using K by (intro exI [of _ "[Issued (RemoveCall K), Resolved (RemoveCall K)]"]) simp
  qed
qed

lemma deleteNote_resolved:
  assumes "note_id note = Some ident" and "ident \<noteq> []"
    and "models_Notes_delete env ident = Inr u"
    and "\<And>s1. deleteNote_remove env note s1 = s1\<lparr>trace := trace s1 @ res\<rparr>"
  shows "deleteNote env note s =
     (Inr (), s\<lparr>notes' := filter (\<lambda>n. note_id n \<noteq> note_id note) (notes' s),
               loading := False,
               trace := trace s @ [SetLoading True, Issued (DeleteCall ident),
                                   Resolved (DeleteCall ident)] @ res @ [SetLoading False]\<rparr>)"
  using assms(1-3) by (simp add: deleteNote_def deleteNote_try_def truthy_def assms(4) state_defs)

lemma busy_span_quiet:
  "list_all (\<lambda>e. \<not> isSetLoading e) es \<Longrightarrow> busy_span True (es @ rest) = busy_span True rest"
  by (induction es) (auto elim: isSetLoading.elims)

lemma ascii_eq_Nil [simp]: "ascii cs = [] \<longleftrightarrow> cs = []"
  by (simp add: ascii_def)

lemma deleteNote_remove_rejected:
  "note_image note = Some K \<Longrightarrow> K \<noteq> [] \<Longrightarrow> remove env K = Inl rmErr \<Longrightarrow>
   deleteNote_remove env note s =
     s\<lparr>trace := trace s @ [Issued (RemoveCall K), Rejected (RemoveCall K),
                            ConsoleWarn ''remove image warning:'' rmErr]\<rparr>"
  by (simp add: deleteNote_remove_def truthy_def state_defs)

lemma deleteNote_remove_resolved:
  "note_image note = Some K \<Longrightarrow> K \<noteq> [] \<Longrightarrow> remove env K = Inr u \<Longrightarrow>
   deleteNote_remove env note s =
     s\<lparr>trace := trace s @ [Issued (RemoveCall K), Resolved (RemoveCall K)]\<rparr>"
  by (simp add: deleteNote_remove_def truthy_def state_defs)

lemma createNote_after_upload:
  assumes nonblank: "trim (name (formState s)) \<noteq> []"
    and up: "\<And>s1. createNote_upload env (file' s) s1 = (Inr k, s1\<lparr>trace := trace s1 @ ues\<rparr>)"
  shows "(\<exists>err. createNote env s =
            (Inr (), s\<lparr>loading := False,
               trace := trace s @ [PreventDefault, SetLoading True] @ ues @
                 [Issued (CreateCall (name (formState s)) (description (formState s)) k),
                  Rejected (CreateCall (name (formState s)) (description (formState s)) k),
                  ConsoleError ''createNote error:'' err, SetLoading False]\<rparr>))
       \<or> (\<exists>n' hes. list_all isHydration hes \<and> createNote env s =
            (Inr (), s\<lparr>notes' := n' # notes' s, formState := \<lparr>name = [], description = []\<rparr>,
               file' := None, loading := False,
               trace := trace s @ [PreventDefault, SetLoading True] @ ues @
                 [Issued (CreateCall (name (formState s)) (description (formState s)) k),
                  Resolved (CreateCall (name (formState s)) (description (formState s)) k)]
                 @ hes @ [SetLoading False]\<rparr>))"
proof (cases "models_Notes_create env (name (formState s)) (description (formState s)) k")
  case (Inl err)
  show ?thesis
    using createNote_create_rejected [OF nonblank up Inl] by blast
next
  case (Inr created)
  obtain n' hes where hy: "\<And>s1. withImageUrl (getUrl env 0) created s1 = (Inr n', s1\<lparr>trace := trace s1 @ hes\<rparr>)"
    and hes: "list_all isHydration hes"
    using withImageUrl_shape [of "getUrl env 0" created] by blast
  show ?thesis
    using createNote_created [OF nonblank up Inr hy] hes by blast
qed

lemmas model_defs =
  fetchNotes_def fetchNotes_try_def Promise_all_withImageUrl_def
  createNote_def createNote_try_def createNote_upload_def
  deleteNote_def deleteNote_try_def deleteNote_remove_def
  withImageUrl_def withImageUrl_start_def withImageUrl_resume_def
  state_defs new_events_def truthy_def

lemma ascii_neq [simp]: "ascii ''n0'' \<noteq> ascii ''n1''"
  by (simp add: ascii_def)

lemma trim_Trip: "trim (ascii ''Trip'') = ascii ''Trip''"
  by (simp add: trim_def ascii_def isWhiteSpace_def)

lemma fetchNotes_busy:
  "let s' = snd (fetchNotes env s); es = new_events s s'
   in trace s' = trace s @ es \<and> hd es = SetLoading True \<and> last es = SetLoading False
      \<and> busy_span b es \<and> \<not> loading s'"
proof (cases "models_Notes_list env")
  case (Inl err)
  then show ?thesis
    by (simp add: fetchNotes_rejected new_events_def)
next
  case (Inr data)
  then obtain ns' es where "list_all isHydration es"
    and "fetchNotes env s =
       (Inr (), s\<lparr>notes' := ns', loading := False,
                 trace := trace s @ [SetLoading True, Issued ListCall, Resolved ListCall] @ es
                            @ [SetLoading False]\<rparr>)"
    using fetchNotes_resolved [of env data s] by blast
  then show ?thesis
    by (simp add: new_events_def busy_span_hydration)
qed

lemma createNote_busy:
  assumes "trim (name (formState s)) \<noteq> []"
  shows "let s' = snd (createNote env s); es = new_events s s'
   in trace s' = trace s @ es \<and> take 2 es = [PreventDefault, SetLoading True]
      \<and> last es = SetLoading False
      \<and> busy_span b es \<and> \<not> loading s'"
proof -
  have after: ?thesis
    if up: "\<And>s1. createNote_upload env (file' s) s1 = (Inr k, s1\<lparr>trace := trace s1 @ ues\<rparr>)"
      and ues: "list_all (\<lambda>e. \<not> isSetLoading e) ues"
    for k ues
    using createNote_after_upload [OF assms up] ues
    by (auto simp add: new_events_def busy_span_quiet busy_span_hydration)
  show ?thesis
  proof (cases "file' s")
    case None
    have "\<And>s1. createNote_upload env (file' s) s1 = (Inr None, s1\<lparr>trace := trace s1 @ []\<rparr>)"
      using None createNote_upload_none by simp
    then show ?thesis by (rule after) simp
  next
    case (Some f)
    show ?thesis
    proof (cases "uploadData env (createNote_key env f) f (file_type f)")
      case (Inl err)
      show ?thesis
        by (simp add: createNote_upload_rejected [OF assms Some Inl] new_events_def)
    next
      case (Inr u)
      have "\<And>s1. createNote_upload env (file' s) s1 =
         (Inr (Some (createNote_key env f)),
          s1\<lparr>trace := trace s1 @ [Issued (UploadCall (createNote_key env f) f (file_type f)),
                                 Resolved (UploadCall (createNote_key env f) f (file_type f))]\<rparr>)"
        using Some createNote_upload_resolved [OF Inr] by simp
      then show ?thesis by (rule after) simp
    qed
  qed
qed

lemma deleteNote_busy:
  assumes "truthy (note_id note)"
  shows "let s' = snd (deleteNote env note s); es = new_events s s'
   in trace s' = trace s @ es \<and> hd es = SetLoading True \<and> last es = SetLoading False
      \<and> busy_span b es \<and> \<not> loading s'"
proof -
  obtain ident where ident: "note_id note = Some ident" "ident \<noteq> []"
    using assms by (auto simp: truthy_def split: option.splits)
  show ?thesis
  proof (cases "models_Notes_delete env ident")
    case (Inl err)
    show ?thesis
      by (simp add: deleteNote_rejected [OF ident Inl] new_events_def)
  next
    case (Inr u)
    obtain res where res: "\<And>s1. deleteNote_remove env note s1 = s1\<lparr>trace := trace s1 @ res\<rparr>"
      and quiet: "list_all (\<lambda>e. \<not> isSetLoading e) res"
      using deleteNote_remove_shape [of env "note"] by blast
    show ?thesis
      using quiet
      by (simp add: deleteNote_resolved [OF ident Inr res] new_events_def busy_span_quiet)
  qed
qed

subsection \<open>The claims\<close>

text \<open>
  C1. \<^verbatim>\<open>createNote\<close> with a picture selected and a name that is not blank issues exactly
  one upload request, under the key built from the clock and the name of the picture.
  If the upload succeeds, the events of the invocation start with the upload request,
  its fulfilment, and then the create request, which carries that same key as its image
  key; it is the only create request. If the upload fails, no create request is issued.
\<close>

theorem createNote_upload_before_create:
  assumes "trim (name (formState s)) \<noteq> []" and "file' s = Some f"
  shows "let key = createNote_key env f;
             up = UploadCall key f (file_type f);
             cr = CreateCall (name (formState s)) (description (formState s)) (Some key);
             es = new_events s (snd (createNote env s))
         in trace (snd (createNote env s)) = trace s @ es \<and>
            filter isUpload (issued es) = [up] \<and>
            (case uploadData env key f (file_type f) of
               Inr _ \<Rightarrow>
                 take 5 es = [PreventDefault, SetLoading True, Issued up, Resolved up, Issued cr]
                 \<and> filter isCreate (issued es) = [cr]
             | Inl _ \<Rightarrow>
                 take 4 es = [PreventDefault, SetLoading True, Issued up, Rejected up]
                 \<and> filter isCreate (issued es) = [])"
proof (cases "uploadData env (createNote_key env f) f (file_type f)")
  case (Inl err)
  show ?thesis
    using Inl by (simp add: createNote_upload_rejected [OF assms Inl] new_events_def)
next
  case (Inr u)
  have up: "\<And>s1. createNote_upload env (file' s) s1 =
     (Inr (Some (createNote_key env f)),
      s1\<lparr>trace := trace s1 @ [Issued (UploadCall (createNote_key env f) f (file_type f)),
                             Resolved (UploadCall (createNote_key env f) f (file_type f))]\<rparr>)"
    using assms(2) createNote_upload_resolved [OF Inr] by simp
  from createNote_after_upload [OF assms(1) up] show ?thesis
  proof (elim disjE exE conjE)
    fix err
    assume "createNote env s =
            (Inr (), s\<lparr>loading := False,
               trace := trace s @ [PreventDefault, SetLoading True] @
                 [Issued (UploadCall (createNote_key env f) f (file_type f)),
                  Resolved (UploadCall (createNote_key env f) f (file_type f))] @
                 [Issued (CreateCall (name (formState s)) (description (formState s)) (Some (createNote_key env f))),
                  Rejected (CreateCall (name (formState s)) (description (formState s)) (Some (createNote_key env f))),
                  ConsoleError ''createNote error:'' err, SetLoading False]\<rparr>)"
    then show ?thesis
      using Inr by (simp add: new_events_def)
  next
    fix n' hes
    assume "list_all isHydration hes"
      and "createNote env s =
            (Inr (), s\<lparr>notes' := n' # notes' s, formState := \<lparr>name = [], description = []\<rparr>,
               file' := None, loading := False,
               trace := trace s @ [PreventDefault, SetLoading True] @
                 [Issued (UploadCall (createNote_key env f) f (file_type f)),
                  Resolved (UploadCall (createNote_key env f) f (file_type f))] @
                 [Issued (CreateCall (name (formState s)) (description (formState s)) (Some (createNote_key env f))),
                  Resolved (CreateCall (name (formState s)) (description (formState s)) (Some (createNote_key env f)))]
                 @ hes @ [SetLoading False]\<rparr>)"
    then show ?thesis
      using Inr
      by (simp add: new_events_def issued_append hydration_no_upload hydration_no_create)
  qed
qed

theorem createNote_upload_before_create_witness:
  "trim (name (formState (form_trip\<lparr>file' := Some photo\<rparr>))) \<noteq> []
   \<and> file' (form_trip\<lparr>file' := Some photo\<rparr>) = Some photo
   \<and> filter isUpload (issued (new_events (form_trip\<lparr>file' := Some photo\<rparr>)
          (snd (createNote env_ok (form_trip\<lparr>file' := Some photo\<rparr>)))))
       = [UploadCall (createNote_key env_ok photo) photo (ascii ''image/png'')]
   \<and> take 5 (new_events (form_trip\<lparr>file' := Some photo\<rparr>)
          (snd (createNote env_ok (form_trip\<lparr>file' := Some photo\<rparr>))))
       = [PreventDefault, SetLoading True,
          Issued (UploadCall (createNote_key env_ok photo) photo (ascii ''image/png'')),
          Resolved (UploadCall (createNote_key env_ok photo) photo (ascii ''image/png'')),
          Issued (CreateCall (ascii ''Trip'') (ascii ''Fun'') (Some (createNote_key env_ok photo)))]"
  using createNote_upload_before_create [of "form_trip\<lparr>file' := Some photo\<rparr>" photo env_ok]
  by (simp add: form_trip_def initial_def trim_Trip photo_def env_ok_def Let_def)

text \<open>
  C2. \<^verbatim>\<open>deleteNote\<close> on a note with an identifier (a non-empty \<^verbatim>\<open>id\<close>) and an image key
  \<open>K\<close> (a non-empty \<^verbatim>\<open>image\<close>): if the deletion of the record succeeds, then the remove
  request for \<open>K\<close> follows it, it is the only remove request, and the collection
  afterwards is the old one without the notes of that identifier. Nothing is assumed of
  the answer to the remove request: this holds whether it succeeds or fails.
\<close>

theorem deleteNote_removes_image_and_note:
  assumes "note_id note = Some ident" and "ident \<noteq> []"
    and "note_image note = Some K" and "K \<noteq> []"
    and "models_Notes_delete env ident = Inr ()"
  shows "let s' = snd (deleteNote env note s); es = new_events s s'
         in trace s' = trace s @ es
            \<and> take 4 es = [SetLoading True, Issued (DeleteCall ident), Resolved (DeleteCall ident),
                         Issued (RemoveCall K)]
            \<and> filter isRemove (issued es) = [RemoveCall K]
            \<and> notes' s' = filter (\<lambda>n. note_id n \<noteq> Some ident) (notes' s)
            \<and> (\<forall>n\<in>set (notes' s'). note_id n \<noteq> Some ident)"
proof (cases "remove env K")
  case (Inl rmErr)
  show ?thesis
    using assms(1)
    by (simp add: deleteNote_resolved [OF assms(1,2,5) deleteNote_remove_rejected [OF assms(3,4) Inl]]
        new_events_def)
next
  case (Inr u)
  show ?thesis
    using assms(1)
    by (simp add: deleteNote_resolved [OF assms(1,2,5) deleteNote_remove_resolved [OF assms(3,4) Inr]]
        new_events_def)
qed

theorem deleteNote_removes_image_and_note_witness:
  "note_id note_trip = Some (ascii ''n1'') \<and> ascii ''n1'' \<noteq> []
   \<and> note_image note_trip = Some (ascii ''images/1-a.png'') \<and> ascii ''images/1-a.png'' \<noteq> []
   \<and> models_Notes_delete env_orphan (ascii ''n1'') = Inr ()
   \<and> remove env_orphan (ascii ''images/1-a.png'') = Inl StorageError
   \<and> filter isRemove (issued (new_events listed
         (snd (deleteNote env_orphan note_trip listed))))
       = [RemoveCall (ascii ''images/1-a.png'')]
   \<and> notes' (snd (deleteNote env_orphan note_trip listed))
       = [note_plain]"
  using deleteNote_removes_image_and_note [of note_trip "ascii ''n1''" "ascii ''images/1-a.png''"
      env_orphan listed]
  by (simp add: note_trip_def note_plain_def env_orphan_def env_ok_def listed_def initial_def
      model_defs)

text \<open>
  C3. If the list request fails (its promise is rejected), \<^verbatim>\<open>fetchNotes\<close> leaves the
  collection as it was, and the promise it returns is fulfilled (\<open>Inr\<close>), not rejected.
  If the note has an identifier and the deletion of the record fails, the same holds of
  \<^verbatim>\<open>deleteNote\<close>.
\<close>

theorem primary_failure_keeps_notes:
  "(models_Notes_list env = Inl err \<longrightarrow>
      fst (fetchNotes env s) = Inr () \<and> notes' (snd (fetchNotes env s)) = notes' s)
   \<and> (note_id note = Some ident \<and> ident \<noteq> [] \<and> models_Notes_delete env ident = Inl err \<longrightarrow>
      fst (deleteNote env note s) = Inr () \<and> notes' (snd (deleteNote env note s)) = notes' s)"
  by (simp add: fetchNotes_rejected deleteNote_rejected)

theorem primary_failure_keeps_notes_witness:
  "models_Notes_list env_down = Inl ServiceError
   \<and> note_id note_trip = Some (ascii ''n1'') \<and> ascii ''n1'' \<noteq> []
   \<and> models_Notes_delete env_down (ascii ''n1'') = Inl ServiceError
   \<and> fst (fetchNotes env_down listed) = Inr ()
   \<and> notes' (snd (fetchNotes env_down listed)) = [note_trip, note_plain]
   \<and> fst (deleteNote env_down note_trip listed) = Inr ()
   \<and> notes' (snd (deleteNote env_down note_trip listed)) = [note_trip, note_plain]"
  using primary_failure_keeps_notes [of env_down ServiceError listed note_trip "ascii ''n1''"]
  by (simp add: note_trip_def env_down_def listed_def initial_def model_defs)

text \<open>
  C4. If every code unit of the name in the form buffer is white space (so also if the
  name is empty), \<^verbatim>\<open>createNote\<close> only calls \<^verbatim>\<open>preventDefault\<close> on the event: it issues no
  request, and the collection, the form buffer, the pending picture and the busy flag
  are what they were.
\<close>

theorem createNote_blank_name:
  assumes "\<forall>c\<in>set (name (formState s)). isWhiteSpace c"
  shows "createNote env s = (Inr (), s\<lparr>trace := trace s @ [PreventDefault]\<rparr>)
     \<and> (let s' = snd (createNote env s)
        in issued (new_events s s') = [] \<and> notes' s' = notes' s \<and> formState s' = formState s
           \<and> file' s' = file' s \<and> loading s' = loading s)"
proof -
  have "trim (name (formState s)) = []"
    using assms by (simp add: trim_eq_Nil)
  then show ?thesis
    by (simp add: createNote_blank new_events_def)
qed

theorem createNote_blank_name_witness:
  "list_all isWhiteSpace (name (formState form_blank))
   \<and> createNote env_ok form_blank = (Inr (), form_blank\<lparr>trace := [PreventDefault]\<rparr>)
   \<and> issued (new_events form_blank (snd (createNote env_ok form_blank))) = []"
  using createNote_blank_name [of form_blank env_ok]
  by (simp add: form_blank_def initial_def isWhiteSpace_def trim_def model_defs)

text \<open>
  C5. Let the form buffer hold a name \<open>nm\<close> that is not blank and a description
  \<open>descr\<close>, let the upload (if a picture is selected) succeed, and let the persistence
  service answer the create request with a note \<open>created\<close>. Then \<^verbatim>\<open>createNote\<close> empties
  the form buffer, clears the pending picture, and puts \<^verbatim>\<open>withImageUrl(created)\<close> in
  front of the notes held before, which all remain. That first element has the
  identifier the service assigned. The component takes the other properties from the
  answer of the service as well: when \<open>created\<close> is the record as it was sent, with the
  name \<open>nm\<close> and the description \<open>descr\<close>, the first element has them; and when no
  picture was selected and \<open>created\<close> has no image key and no \<^verbatim>\<open>imageUrl\<close> (which is
  never stored), the first element has neither.
\<close>

theorem createNote_success:
  assumes form: "formState s = \<lparr>name = nm, description = descr\<rparr>"
    and nonblank: "trim nm \<noteq> []"
    and upload: "case file' s of None \<Rightarrow> True
                 | Some f \<Rightarrow> uploadData env (createNote_key env f) f (file_type f) = Inr ()"
    and create: "models_Notes_create env nm descr (map_option (createNote_key env) (file' s)) = Inr created"
  shows "let s' = snd (createNote env s); first = hd (notes' s')
         in formState s' = \<lparr>name = [], description = []\<rparr> \<and> file' s' = None
            \<and> notes' s' = first # notes' s
            \<and> fst (withImageUrl (getUrl env 0) created s) = Inr first
            \<and> note_id first = note_id created
            \<and> (note_name created = Some nm \<and> note_description created = Some descr \<longrightarrow>
                 note_name first = Some nm \<and> note_description first = Some descr)
            \<and> (file' s = None \<and> note_image created = None \<and> note_imageUrl created = None \<longrightarrow>
                 note_image first = None \<and> note_imageUrl first = None)"
proof -
  have nb: "trim (name (formState s)) \<noteq> []"
    using form nonblank by simp
  obtain ues where up: "\<And>s1. createNote_upload env (file' s) s1 =
       (Inr (map_option (createNote_key env) (file' s)), s1\<lparr>trace := trace s1 @ ues\<rparr>)"
  proof (cases "file' s")
    case None
    then have "\<And>s1. createNote_upload env (file' s) s1 =
       (Inr (map_option (createNote_key env) (file' s)), s1\<lparr>trace := trace s1 @ []\<rparr>)"
      using createNote_upload_none by simp
    then show ?thesis by (rule that)
  next
    case (Some f)
    then have "uploadData env (createNote_key env f) f (file_type f) = Inr ()"
      using upload by simp
    from createNote_upload_resolved [OF this] Some
    have "\<And>s1. createNote_upload env (file' s) s1 =
       (Inr (map_option (createNote_key env) (file' s)),
        s1\<lparr>trace := trace s1 @ [Issued (UploadCall (createNote_key env f) f (file_type f)),
                               Resolved (UploadCall (createNote_key env f) f (file_type f))]\<rparr>)"
      by simp
    then show ?thesis by (rule that)
  qed
  have cr: "models_Notes_create env (name (formState s)) (description (formState s))
              (map_option (createNote_key env) (file' s)) = Inr created"
    using form create by simp
  obtain n' hes where hy: "\<And>s1. withImageUrl (getUrl env 0) created s1 = (Inr n', s1\<lparr>trace := trace s1 @ hes\<rparr>)"
    and n': "n' = created \<or> (\<exists>u. truthy (note_image created) \<and> n' = created\<lparr>note_imageUrl := Some u\<rparr>)"
    using withImageUrl_shape [of "getUrl env 0" created] by blast
  have fields: "note_id n' = note_id created" "note_name n' = note_name created"
    "note_description n' = note_description created"
    using n' by auto
  have plain: "note_image created = None \<longrightarrow> n' = created"
    using n' by (auto simp: truthy_def)
  show ?thesis
    using fields plain by (auto simp add: createNote_created [OF nb up cr hy] hy)
qed

theorem createNote_success_witness:
  "formState (listed\<lparr>formState := formState form_trip\<rparr>)
     = \<lparr>name = ascii ''Trip'', description = ascii ''Fun''\<rparr>
   \<and> trim (ascii ''Trip'') \<noteq> []
   \<and> file' (listed\<lparr>formState := formState form_trip\<rparr>) = None
   \<and> models_Notes_create env_ok (ascii ''Trip'') (ascii ''Fun'') None = Inr created_trip
   \<and> note_name created_trip = Some (ascii ''Trip'')
   \<and> note_description created_trip = Some (ascii ''Fun'')
   \<and> note_image created_trip = None \<and> note_imageUrl created_trip = None
   \<and> formState (snd (createNote env_ok (listed\<lparr>formState := formState form_trip\<rparr>)))
       = \<lparr>name = [], description = []\<rparr>
   \<and> file' (snd (createNote env_ok (listed\<lparr>formState := formState form_trip\<rparr>))) = None
   \<and> notes' (snd (createNote env_ok (listed\<lparr>formState := formState form_trip\<rparr>)))
       = [created_trip, note_trip, note_plain]"
  using createNote_success [of "listed\<lparr>formState := formState form_trip\<rparr>" "ascii ''Trip''"
      "ascii ''Fun''" env_ok created_trip]
  by (simp add: form_trip_def listed_def initial_def trim_Trip env_ok_def created_trip_def
      model_defs)

text \<open>
  C6. For \<^verbatim>\<open>fetchNotes\<close>, for \<^verbatim>\<open>createNote\<close> with a name that is not blank, and for
  \<^verbatim>\<open>deleteNote\<close> on a note with an identifier: the events of the invocation begin with
  \<^verbatim>\<open>setLoading(true)\<close> (after \<^verbatim>\<open>preventDefault\<close> in \<^verbatim>\<open>createNote\<close>) and end with
  \<^verbatim>\<open>setLoading(false)\<close>, every request is issued and settles while the flag is true
  (whatever the flag \<open>b\<close> was before), and the flag is false in the final state. The
  statement covers every answer of the collaborators, failures included.
\<close>

theorem busy_flag_spans_calls:
  "(let s' = snd (fetchNotes env s); es = new_events s s'
    in trace s' = trace s @ es \<and> hd es = SetLoading True \<and> last es = SetLoading False
       \<and> busy_span b es \<and> \<not> loading s')
   \<and> (trim (name (formState s)) \<noteq> [] \<longrightarrow>
       (let s' = snd (createNote env s); es = new_events s s'
        in trace s' = trace s @ es \<and> take 2 es = [PreventDefault, SetLoading True]
           \<and> last es = SetLoading False \<and> busy_span b es \<and> \<not> loading s'))
   \<and> (truthy (note_id note) \<longrightarrow>
       (let s' = snd (deleteNote env note s); es = new_events s s'
        in trace s' = trace s @ es \<and> hd es = SetLoading True \<and> last es = SetLoading False
           \<and> busy_span b es \<and> \<not> loading s'))"
  using fetchNotes_busy [of env s b] createNote_busy [of s env b] deleteNote_busy [of "note" env s b]
  by blast

theorem busy_flag_spans_calls_witness:
  "trim (name (formState form_trip)) \<noteq> [] \<and> truthy (note_id note_trip)
   \<and> new_events form_trip (snd (fetchNotes env_down form_trip))
       = [SetLoading True, Issued ListCall, Rejected ListCall,
          ConsoleError ''fetchNotes error:'' ServiceError, SetLoading False]
   \<and> busy_span False (new_events form_trip (snd (fetchNotes env_down form_trip)))
   \<and> \<not> loading (snd (fetchNotes env_down form_trip))
   \<and> new_events form_trip (snd (createNote env_ok form_trip))
       = [PreventDefault, SetLoading True,
          Issued (CreateCall (ascii ''Trip'') (ascii ''Fun'') None),
          Resolved (CreateCall (ascii ''Trip'') (ascii ''Fun'') None), SetLoading False]
   \<and> busy_span False (new_events form_trip (snd (createNote env_ok form_trip)))
   \<and> \<not> loading (snd (createNote env_ok form_trip))
   \<and> new_events form_trip (snd (deleteNote env_orphan note_trip form_trip))
       = [SetLoading True, Issued (DeleteCall (ascii ''n1'')), Resolved (DeleteCall (ascii ''n1'')),
          Issued (RemoveCall (ascii ''images/1-a.png'')),
          Rejected (RemoveCall (ascii ''images/1-a.png'')),
          ConsoleWarn ''remove image warning:'' StorageError, SetLoading False]
   \<and> busy_span False (new_events form_trip (snd (deleteNote env_orphan note_trip form_trip)))
   \<and> \<not> loading (snd (deleteNote env_orphan note_trip form_trip))"
  using busy_flag_spans_calls [of env_down form_trip False note_trip]
    busy_flag_spans_calls [of env_ok form_trip False note_trip]
    busy_flag_spans_calls [of env_orphan form_trip False note_trip]
  by (simp add: form_trip_def initial_def trim_Trip note_trip_def env_ok_def env_down_def
      env_orphan_def model_defs)

text \<open>
  C7. A note has an image key when its \<^verbatim>\<open>image\<close> property is truthy, that is a
  non-empty string \<open>K\<close>. If the object store answers the \<^verbatim>\<open>getUrl\<close> request for \<open>K\<close>
  with a URL whose \<^verbatim>\<open>href\<close> is \<open>U\<close>, then \<^verbatim>\<open>withImageUrl\<close> returns a note whose
  \<^verbatim>\<open>imageUrl\<close> is \<open>U\<close> and whose identifier, name, description, image key and
  further properties are those of the note it was given.
\<close>

theorem hydrate_sets_imageUrl:
  assumes "note_image N = Some K" and "K \<noteq> []" and "g K = Inr U"
  shows "\<exists>N'. fst (withImageUrl g N s) = Inr N' \<and> note_imageUrl N' = Some U
           \<and> note_id N' = note_id N \<and> note_name N' = note_name N
           \<and> note_description N' = note_description N \<and> note_image N' = note_image N
           \<and> Note.more N' = Note.more N"
  using assms by (simp add: withImageUrl_resolved)

theorem hydrate_sets_imageUrl_witness:
  "note_image note_trip = Some (ascii ''images/1-a.png'') \<and> ascii ''images/1-a.png'' \<noteq> []
   \<and> getUrl env_ok 0 (ascii ''images/1-a.png'') = Inr (ascii ''https://store/images/1-a.png'')
   \<and> fst (withImageUrl (getUrl env_ok 0) note_trip initial)
       = Inr (note_trip\<lparr>note_imageUrl := Some (ascii ''https://store/images/1-a.png'')\<rparr>)"
  using hydrate_sets_imageUrl [of note_trip "ascii ''images/1-a.png''" "getUrl env_ok 0"
      "ascii ''https://store/images/1-a.png''" initial]
  by (auto simp add: note_trip_def env_ok_def ascii_def)

text \<open>
  C8. For a note without an image key (\<^verbatim>\<open>image\<close> absent or the empty string),
  \<^verbatim>\<open>withImageUrl\<close> returns the note as it is and leaves the state, hence the trace,
  as it is: no request goes to the object store.
\<close>

theorem hydrate_without_image_key:
  "\<not> truthy (note_image N) \<Longrightarrow> withImageUrl g N s = (Inr N, s)"
  by (rule withImageUrl_falsy)

theorem hydrate_without_image_key_witness:
  "\<not> truthy (note_image note_plain)
   \<and> withImageUrl (getUrl env_ok 0) note_plain initial = (Inr note_plain, initial)"
  using hydrate_without_image_key [of note_plain "getUrl env_ok 0" initial]
  by (simp add: note_plain_def truthy_def)

text \<open>
  C9. If the note has an image key \<open>K\<close> and the \<^verbatim>\<open>getUrl\<close> request for \<open>K\<close> fails with
  \<open>err\<close>, then \<^verbatim>\<open>withImageUrl\<close> still returns normally (\<open>Inr\<close>), with the note it was
  given, unchanged, so without an \<^verbatim>\<open>imageUrl\<close> if it had none; the failure is logged.
\<close>

theorem hydrate_getUrl_failure:
  assumes "note_image N = Some K" and "K \<noteq> []" and "g K = Inl err"
  shows "withImageUrl g N s =
     (Inr N, s\<lparr>trace := trace s @ [Issued (GetUrlCall K), Rejected (GetUrlCall K),
                                   ConsoleError ''getUrl error:'' err]\<rparr>)"
  using assms by (rule withImageUrl_rejected)

theorem hydrate_getUrl_failure_witness:
  "note_image note_trip = Some (ascii ''images/1-a.png'') \<and> ascii ''images/1-a.png'' \<noteq> []
   \<and> getUrl env_down 0 (ascii ''images/1-a.png'') = Inl StorageError
   \<and> withImageUrl (getUrl env_down 0) note_trip initial =
       (Inr note_trip,
        initial\<lparr>trace := [Issued (GetUrlCall (ascii ''images/1-a.png'')),
                            Rejected (GetUrlCall (ascii ''images/1-a.png'')),
                            ConsoleError ''getUrl error:'' StorageError]\<rparr>)"
  using hydrate_getUrl_failure [of note_trip "ascii ''images/1-a.png''" "getUrl env_down 0"
      StorageError initial]
  by (simp add: note_trip_def env_down_def initial_def)

text \<open>
  C10. When the name in the form buffer is not blank, the create request that
  \<^verbatim>\<open>createNote\<close> issues (always when no picture is selected, and after a successful
  upload otherwise) carries the name of the form buffer as it stands, not the trimmed
  name; no other create request is issued.
\<close>

theorem createNote_sends_name_verbatim:
  assumes "trim (name (formState s)) \<noteq> []"
  shows "trace (snd (createNote env s)) = trace s @ new_events s (snd (createNote env s))
     \<and> filter isCreate (issued (new_events s (snd (createNote env s)))) =
     (case file' s of
        None \<Rightarrow> [CreateCall (name (formState s)) (description (formState s)) None]
      | Some f \<Rightarrow>
          (case uploadData env (createNote_key env f) f (file_type f) of
             Inl _ \<Rightarrow> []
           | Inr _ \<Rightarrow> [CreateCall (name (formState s)) (description (formState s))
                                 (Some (createNote_key env f))]))"
proof (cases "file' s")
  case None
  have up: "\<And>s1. createNote_upload env (file' s) s1 = (Inr None, s1\<lparr>trace := trace s1 @ []\<rparr>)"
    using None createNote_upload_none by simp
  from createNote_after_upload [OF assms up] show ?thesis
    using None
    by (auto simp add: new_events_def issued_append hydration_no_create)
next
  case (Some f)
  show ?thesis
  proof (cases "uploadData env (createNote_key env f) f (file_type f)")
    case (Inl err)
    show ?thesis
      using Some Inl by (simp add: createNote_upload_rejected [OF assms Some Inl] new_events_def)
  next
    case (Inr u)
    have up: "\<And>s1. createNote_upload env (file' s) s1 =
       (Inr (Some (createNote_key env f)),
        s1\<lparr>trace := trace s1 @ [Issued (UploadCall (createNote_key env f) f (file_type f)),
                               Resolved (UploadCall (createNote_key env f) f (file_type f))]\<rparr>)"
      using Some createNote_upload_resolved [OF Inr] by simp
    from createNote_after_upload [OF assms up] show ?thesis
      using Some Inr
      by (auto simp add: new_events_def issued_append hydration_no_create)
  qed
qed

theorem createNote_sends_name_verbatim_witness:
  "trim (name (formState form_padded)) \<noteq> []
   \<and> trim (name (formState form_padded)) \<noteq> name (formState form_padded)
   \<and> filter isCreate (issued (new_events form_padded (snd (createNote env_ok form_padded))))
       = [CreateCall (ascii ''  Trip '') (ascii ''Fun'') None]"
  using createNote_sends_name_verbatim [of form_padded env_ok]
  by (simp add: form_padded_def initial_def env_ok_def model_defs ascii_def trim_def
      isWhiteSpace_def)

end
